theory Spec2Isabelle
  imports Complex_Main "HOL-Library.Word"
begin

unbundle bit_operations_syntax

section \<open>Python values\<close>

text \<open>
  A Python \<open>str\<close> is modelled as an Isabelle \<open>string\<close> holding its UTF-8 bytes, so that
  \<open>str.encode()\<close> is the identity and \<open>urllib.parse.quote_plus\<close> works byte by byte as it
  does in Python. The methods that classify code points (\<open>strip\<close>, \<open>upper\<close>, \<open>isalpha\<close>,
  and the digit and letter classes of the \<open>decimal\<close> parser) are modelled on ASCII; a byte
  above 127 is neither white space, nor a letter, nor a digit.
\<close>

definition is_space :: "char \<Rightarrow> bool" where
  "is_space c = (c \<in> set [CHR 0x09, CHR 0x0A, CHR 0x0B, CHR 0x0C, CHR 0x0D,
                           CHR 0x1C, CHR 0x1D, CHR 0x1E, CHR 0x1F, CHR '' ''])"

definition is_digit :: "char \<Rightarrow> bool" where
  "is_digit c = (c \<in> set ''0123456789'')"

definition is_upper :: "char \<Rightarrow> bool" where
  "is_upper c = (c \<in> set ''ABCDEFGHIJKLMNOPQRSTUVWXYZ'')"


definition strip :: "string \<Rightarrow> string" where
  "strip s = rev (dropWhile is_space (rev (dropWhile is_space s)))"


definition lower_char :: "char \<Rightarrow> char" where
  "lower_char c = (if is_upper c then char_of (of_char c + (32::nat)) else c)"


definition lower :: "string \<Rightarrow> string" where
  "lower s = map lower_char s"


text \<open>\<open>int(s)\<close> on a string of decimal digits, and \<open>str(n)\<close> on an integer.\<close>

definition digit_val :: "char \<Rightarrow> nat" where
  "digit_val c = of_char c - 48"

definition nat_of_digits :: "string \<Rightarrow> nat" where
  "nat_of_digits s = foldl (\<lambda>a c. 10 * a + digit_val c) 0 s"

definition digit_char :: "nat \<Rightarrow> char" where
  "digit_char n = ''0123456789'' ! n"

fun str_nat :: "nat \<Rightarrow> string" where
  "str_nat n = (if n < 10 then [digit_char n] else str_nat (n div 10) @ [digit_char (n mod 10)])"

declare str_nat.simps [simp del]

definition str_int :: "int \<Rightarrow> string" where
  "str_int i = (if i < 0 then CHR ''-'' # str_nat (nat (- i)) else str_nat (nat i))"

section \<open>decimal.Decimal\<close>

text \<open>
  A \<open>Decimal\<close> is a sign (\<open>True\<close> for negative), a coefficient and an exponent, or one of the
  special values. The constructor keeps the digits as typed: \<open>Decimal('1.10')\<close> is
  coefficient 110 with exponent -2. Quiet and signalling NaN carry a payload (0 when there
  is none). Coefficient and exponent are unbounded, as in the \<open>decimal\<close> specification; the
  bound of about \<open>10^18\<close> that the C accelerator puts on exponents is outside the model.
\<close>

datatype decimal =
    Finite bool nat int
  | Infinity bool
  | NaN bool bool nat

definition split_sign :: "string \<Rightarrow> bool \<times> string" where
  "split_sign s =
     (case s of
        [] \<Rightarrow> (False, [])
      | c # r \<Rightarrow> if c = CHR ''-'' then (True, r)
                 else if c = CHR ''+'' then (False, r)
                 else (False, s))"

text \<open>
  The exponent part of a number: \<open>(E(?P<exp>[-+]?\d+))?\<close> up to the end of the string.
  \<open>None\<close> when the rest of the string is not an exponent part.
\<close>

definition parse_exp :: "string \<Rightarrow> int option" where
  "parse_exp r =
     (case r of
        [] \<Rightarrow> Some 0
      | c # t \<Rightarrow>
          if c = CHR ''e'' \<or> c = CHR ''E'' then
            (let (neg, ds) = split_sign t in
             if ds \<noteq> [] \<and> list_all is_digit ds
             then Some (if neg then - int (nat_of_digits ds) else int (nat_of_digits ds))
             else None)
          else None)"

text \<open>
  The number alternative of the parser: an integer part, an optional fraction, an optional
  exponent, with at least one digit in the integer part or right after the point. The
  coefficient is \<open>int(intpart + fracpart)\<close> and the exponent \<open>exp - len(fracpart)\<close>.
\<close>

definition parse_number :: "string \<Rightarrow> (nat \<times> int) option" where
  "parse_number s =
     (let intpart = takeWhile is_digit s;
          r1 = dropWhile is_digit s;
          has_point = (r1 \<noteq> [] \<and> hd r1 = CHR ''.'');
          fracpart = (if has_point then takeWhile is_digit (tl r1) else []);
          r2 = (if has_point then dropWhile is_digit (tl r1) else r1)
      in if intpart = [] \<and> fracpart = [] then None
         else (case parse_exp r2 of
                 None \<Rightarrow> None
               | Some e \<Rightarrow> Some (nat_of_digits (intpart @ fracpart), e - int (length fracpart))))"

definition parse_nan :: "string \<Rightarrow> (bool \<times> nat) option" where
  "parse_nan s =
     (let l = lower s;
          signal = (l \<noteq> [] \<and> hd l = CHR ''s'');
          r = (if signal then tl l else l)
      in if take 3 r = ''nan'' \<and> list_all is_digit (drop 3 r)
         then Some (signal, nat_of_digits (drop 3 r))
         else None)"

text \<open>
  \<open>Decimal(value)\<close> for a string: \<open>_parser(value.strip().replace("_", ""))\<close>. \<open>None\<close> stands
  for the \<open>InvalidOperation\<close> (conversion syntax) that the constructor raises.
\<close>

definition Decimal :: "string \<Rightarrow> decimal option" where
  "Decimal v =
     (let (neg, body) = split_sign (filter (\<lambda>c. c \<noteq> CHR ''_'') (strip v)) in
      case parse_number body of
        Some (coeff, e) \<Rightarrow> Some (Finite neg coeff e)
      | None \<Rightarrow>
          if lower body = ''inf'' \<or> lower body = ''infinity'' then Some (Infinity neg)
          else (case parse_nan body of
                  Some (signal, diag) \<Rightarrow> Some (NaN neg signal diag)
                | None \<Rightarrow> None))"

text \<open>
  \<open>d <= 0\<close>. An ordering comparison with a NaN signals \<open>InvalidOperation\<close>, which the
  default context traps: \<open>None\<close> stands for that exception.
\<close>

fun le_zero :: "decimal \<Rightarrow> bool option" where
  "le_zero (Finite neg coeff e) = Some (neg \<or> coeff = 0)"
| "le_zero (Infinity neg) = Some neg"
| "le_zero (NaN neg signal diag) = None"

text \<open>The rational value of a finite decimal.\<close>

definition dec_value :: "bool \<Rightarrow> nat \<Rightarrow> int \<Rightarrow> rat" where
  "dec_value neg coeff e =
     (if neg then - 1 else 1) * of_nat coeff *
     (if 0 \<le> e then 10 ^ nat e else 1 / 10 ^ nat (- e))"

section \<open>Validators (bot/validators.py)\<close>

text \<open>
  Every \<open>raise ValueError(f"...")\<close> of the validators is a constructor of \<open>violation\<close> that
  keeps the values the message is formatted from:
  \<^item> \<open>InvalidSymbol s\<close>: "Invalid symbol 's'. Must be alphabetic (e.g. BTCUSDT)."
  \<^item> \<open>SymbolTooShort s\<close>: "Symbol 's' looks too short. Expected something like BTCUSDT."
  \<^item> \<open>InvalidSide s\<close>: "Invalid side 's'. Must be one of ..."
  \<^item> \<open>InvalidOrderType s\<close>: "Invalid order type 's'. Supported: ..."
  \<^item> \<open>InvalidQuantity q\<close>: "Invalid quantity 'q'. Must be a positive number."
  \<^item> \<open>QuantityNotPositive d\<close>: "Quantity must be > 0, got d."
  \<^item> \<open>PriceRequired t\<close>: "Price is required for t orders."
  \<^item> \<open>InvalidPrice p\<close>: "Invalid price 'p'. Must be a positive number."
  \<^item> \<open>PriceNotPositive d\<close>: "Price must be > 0, got d."
  \<^item> \<open>StopPriceRequired t\<close>: "Stop price is required for t orders."
  \<^item> \<open>InvalidStopPrice p\<close>: "Invalid stop price 'p'. Must be a positive number."
  \<^item> \<open>StopPriceNotPositive d\<close>: "Stop price must be > 0, got d."
\<close>

datatype violation =
    InvalidSymbol string
  | SymbolTooShort string
  | InvalidSide string
  | InvalidOrderType string
  | InvalidQuantity string
  | QuantityNotPositive decimal
  | PriceRequired string
  | InvalidPrice string
  | PriceNotPositive decimal
  | StopPriceRequired string
  | InvalidStopPrice string
  | StopPriceNotPositive decimal

text \<open>
  The exceptions that leave a validator: the validation error \<open>ValueError\<close>, and
  \<open>decimal.InvalidOperation\<close>, which is an \<open>ArithmeticError\<close> and not a \<open>ValueError\<close>.
\<close>

datatype verror = ValueError violation | InvalidOperation



definition PRICE_REQUIRED_TYPES :: "string set" where
  "PRICE_REQUIRED_TYPES = {''LIMIT'', ''STOP'', ''TAKE_PROFIT''}"

definition STOP_REQUIRED_TYPES :: "string set" where
  "STOP_REQUIRED_TYPES = {''STOP'', ''STOP_MARKET'', ''TAKE_PROFIT'', ''TAKE_PROFIT_MARKET''}"




text \<open>
  The numeric validators take \<open>str(quantity)\<close>, the string that the source hands to the
  \<open>Decimal\<close> constructor (for a \<open>str\<close> argument, the argument itself). The constructor is
  inside the \<open>try\<close>, the comparison with 0 is after it.
\<close>

definition validate_quantity :: "string \<Rightarrow> verror + decimal" where
  "validate_quantity quantity =
     (case Decimal quantity of
        None \<Rightarrow> Inl (ValueError (InvalidQuantity quantity))
      | Some qty \<Rightarrow>
          (case le_zero qty of
             None \<Rightarrow> Inl InvalidOperation
           | Some True \<Rightarrow> Inl (ValueError (QuantityNotPositive qty))
           | Some False \<Rightarrow> Inr qty))"

definition validate_price :: "string option \<Rightarrow> string \<Rightarrow> verror + decimal option" where
  "validate_price price order_type =
     (case price of
        None \<Rightarrow>
          if order_type \<in> PRICE_REQUIRED_TYPES then Inl (ValueError (PriceRequired order_type))
          else Inr None
      | Some raw \<Rightarrow>
          (case Decimal raw of
             None \<Rightarrow> Inl (ValueError (InvalidPrice raw))
           | Some p \<Rightarrow>
               (case le_zero p of
                  None \<Rightarrow> Inl InvalidOperation
                | Some True \<Rightarrow> Inl (ValueError (PriceNotPositive p))
                | Some False \<Rightarrow> Inr (Some p))))"

definition validate_stop_price :: "string option \<Rightarrow> string \<Rightarrow> verror + decimal option" where
  "validate_stop_price stop_price order_type =
     (case stop_price of
        None \<Rightarrow>
          if order_type \<in> STOP_REQUIRED_TYPES
          then Inl (ValueError (StopPriceRequired order_type))
          else Inr None
      | Some raw \<Rightarrow>
          (case Decimal raw of
             None \<Rightarrow> Inl (ValueError (InvalidStopPrice raw))
           | Some sp \<Rightarrow>
               (case le_zero sp of
                  None \<Rightarrow> Inl InvalidOperation
                | Some True \<Rightarrow> Inl (ValueError (StopPriceNotPositive sp))
                | Some False \<Rightarrow> Inr (Some sp))))"

section \<open>hashlib.sha256 and hmac\<close>

text \<open>
  \<open>_sign\<close> calls \<open>hmac.new(key, msg, hashlib.sha256).hexdigest()\<close> of the standard library.
  The two functions are written out here from their standards (FIPS 180-4 and RFC 2104), on
  bytes as \<open>char\<close>s and 32-bit words, so that a signature can be computed.
\<close>

type_synonym u32 = "32 word"

definition rotr :: "nat \<Rightarrow> u32 \<Rightarrow> u32" where
  "rotr n x = drop_bit n x OR push_bit (32 - n) x"

definition Ch :: "u32 \<Rightarrow> u32 \<Rightarrow> u32 \<Rightarrow> u32" where
  "Ch x y z = (x AND y) XOR (NOT x AND z)"

definition Maj :: "u32 \<Rightarrow> u32 \<Rightarrow> u32 \<Rightarrow> u32" where
  "Maj x y z = (x AND y) XOR (x AND z) XOR (y AND z)"

definition bsig0 :: "u32 \<Rightarrow> u32" where
  "bsig0 x = rotr 2 x XOR rotr 13 x XOR rotr 22 x"

definition bsig1 :: "u32 \<Rightarrow> u32" where
  "bsig1 x = rotr 6 x XOR rotr 11 x XOR rotr 25 x"

definition ssig0 :: "u32 \<Rightarrow> u32" where
  "ssig0 x = rotr 7 x XOR rotr 18 x XOR drop_bit 3 x"

definition ssig1 :: "u32 \<Rightarrow> u32" where
  "ssig1 x = rotr 17 x XOR rotr 19 x XOR drop_bit 10 x"

text \<open>
  The round constants (the first 32 bits of the fractional parts of the cube roots of the
  first 64 primes) and the initial hash value, in decimal.
\<close>

definition sha256_K :: "u32 list" where
  "sha256_K =
    [1116352408, 1899447441, 3049323471, 3921009573, 961987163, 1508970993,
     2453635748, 2870763221, 3624381080, 310598401, 607225278, 1426881987,
     1925078388, 2162078206, 2614888103, 3248222580, 3835390401, 4022224774,
     264347078, 604807628, 770255983, 1249150122, 1555081692, 1996064986,
     2554220882, 2821834349, 2952996808, 3210313671, 3336571891, 3584528711,
     113926993, 338241895, 666307205, 773529912, 1294757372, 1396182291,
     1695183700, 1986661051, 2177026350, 2456956037, 2730485921, 2820302411,
     3259730800, 3345764771, 3516065817, 3600352804, 4094571909, 275423344,
     430227734, 506948616, 659060556, 883997877, 958139571, 1322822218,
     1537002063, 1747873779, 1955562222, 2024104815, 2227730452, 2361852424,
     2428436474, 2756734187, 3204031479, 3329325298]"

type_synonym sha_state = "u32 \<times> u32 \<times> u32 \<times> u32 \<times> u32 \<times> u32 \<times> u32 \<times> u32"

definition sha256_H0 :: sha_state where
  "sha256_H0 =
    (1779033703, 3144134277, 1013904242, 2773480762,
     1359893119, 2600822924, 528734635, 1541459225)"

text \<open>Big-endian bytes of a number, and the word of four bytes.\<close>

fun be_bytes :: "nat \<Rightarrow> nat \<Rightarrow> string" where
  "be_bytes 0 v = []"
| "be_bytes (Suc n) v = be_bytes n (v div 256) @ [char_of (v mod 256)]"

definition be_word :: "string \<Rightarrow> u32" where
  "be_word bs = foldl (\<lambda>a c. push_bit 8 a + of_nat (of_char c)) 0 bs"

fun chunks :: "nat \<Rightarrow> 'a list \<Rightarrow> 'a list list" where
  "chunks n xs = (if n = 0 \<or> xs = [] then [] else take n xs # chunks n (drop n xs))"

declare chunks.simps [simp del]

definition sha256_pad :: "string \<Rightarrow> string" where
  "sha256_pad m =
     m @ [CHR 0x80] @ replicate ((119 - length m mod 64) mod 64) (CHR 0x00)
       @ be_bytes 8 (8 * length m)"

fun schedule :: "nat \<Rightarrow> u32 list \<Rightarrow> u32 list" where
  "schedule 0 w = w"
| "schedule (Suc n) w =
     (let t = length w
      in schedule n (w @ [ssig1 (w ! (t - 2)) + w ! (t - 7) + ssig0 (w ! (t - 15)) + w ! (t - 16)]))"

definition sha256_round :: "sha_state \<Rightarrow> u32 \<times> u32 \<Rightarrow> sha_state" where
  "sha256_round s kw =
     (case s of (a, b, c, d, e, f, g, h) \<Rightarrow>
      case kw of (k, w) \<Rightarrow>
        (let t1 = h + bsig1 e + Ch e f g + k + w;
             t2 = bsig0 a + Maj a b c
         in (t1 + t2, a, b, c, d + t1, e, f, g)))"

definition sha256_add :: "sha_state \<Rightarrow> sha_state \<Rightarrow> sha_state" where
  "sha256_add s t =
     (case s of (a, b, c, d, e, f, g, h) \<Rightarrow>
      case t of (a', b', c', d', e', f', g', h') \<Rightarrow>
        (a + a', b + b', c + c', d + d', e + e', f + f', g + g', h + h'))"

definition sha256_compress :: "sha_state \<Rightarrow> string \<Rightarrow> sha_state" where
  "sha256_compress hs block =
     (let w = schedule 48 (map be_word (chunks 4 block))
      in sha256_add hs (foldl sha256_round hs (zip sha256_K w)))"

definition sha256 :: "string \<Rightarrow> string" where
  "sha256 m =
     (case foldl sha256_compress sha256_H0 (chunks 64 (sha256_pad m)) of
        (a, b, c, d, e, f, g, h) \<Rightarrow>
          concat (map (\<lambda>w. be_bytes 4 (unat w)) [a, b, c, d, e, f, g, h]))"

definition xor_byte :: "nat \<Rightarrow> char \<Rightarrow> char" where
  "xor_byte p c = char_of (of_char c XOR p)"

text \<open>
  \<open>hmac.new(key, msg, hashlib.sha256).digest()\<close>: a key longer than the 64-byte block is
  hashed first, then padded with zero bytes.
\<close>

definition hmac_sha256 :: "string \<Rightarrow> string \<Rightarrow> string" where
  "hmac_sha256 key msg =
     (let k0 = (if length key > 64 then sha256 key else key);
          k = k0 @ replicate (64 - length k0) (CHR 0x00)
      in sha256 (map (xor_byte 0x5c) k @ sha256 (map (xor_byte 0x36) k @ msg)))"

definition hex_lower :: "nat \<Rightarrow> char" where
  "hex_lower n = ''0123456789abcdef'' ! n"

definition hexdigest :: "string \<Rightarrow> string" where
  "hexdigest bs = concat (map (\<lambda>c. [hex_lower (of_char c div 16), hex_lower (of_char c mod 16)]) bs)"

section \<open>urllib.parse.urlencode\<close>

text \<open>
  The values of a parameter dictionary are the strings and integers the repository puts
  there; a \<open>dict\<close> keeps its keys in insertion order, and assigning to a key that is present
  replaces the value where the key stands.
\<close>

datatype pval = PStr string | PInt int

type_synonym pdict = "(string \<times> pval) list"

fun dict_set :: "pdict \<Rightarrow> string \<Rightarrow> pval \<Rightarrow> pdict" where
  "dict_set [] k v = [(k, v)]"
| "dict_set ((k', v') # d) k v =
     (if k' = k then (k', v) # d else (k', v') # dict_set d k v)"

fun py_str :: "pval \<Rightarrow> string" where
  "py_str (PStr s) = s"
| "py_str (PInt i) = str_int i"

definition always_safe :: "char \<Rightarrow> bool" where
  "always_safe c =
     (c \<in> set ''ABCDEFGHIJKLMNOPQRSTUVWXYZabcdefghijklmnopqrstuvwxyz0123456789_.-~'')"

definition hex_upper :: "nat \<Rightarrow> char" where
  "hex_upper n = ''0123456789ABCDEF'' ! n"

definition quote_byte :: "string \<Rightarrow> char \<Rightarrow> string" where
  "quote_byte safe c =
     (if always_safe c \<or> c \<in> set safe then [c]
      else [CHR ''%'', hex_upper (of_char c div 16), hex_upper (of_char c mod 16)])"

definition quote :: "string \<Rightarrow> string \<Rightarrow> string" where
  "quote safe s = concat (map (quote_byte safe) s)"

definition quote_plus :: "string \<Rightarrow> string" where
  "quote_plus s =
     (if CHR '' '' \<notin> set s then quote [] s
      else map (\<lambda>c. if c = CHR '' '' then CHR ''+'' else c) (quote '' '' s))"

fun join :: "string \<Rightarrow> string list \<Rightarrow> string" where
  "join sep [] = []"
| "join sep [x] = x"
| "join sep (x # y # ys) = x @ sep @ join sep (y # ys)"

definition urlencode :: "pdict \<Rightarrow> string" where
  "urlencode query =
     join ''&'' (map (\<lambda>(k, v). quote_plus k @ ''='' @ quote_plus (py_str v)) query)"

section \<open>The client (bot/client.py)\<close>

text \<open>
  Dictionaries are objects: \<open>_sign\<close> assigns into the dictionary it is given, and \<open>_request\<close>
  copies its argument first. The store is a list of dictionaries, an address is an index
  into it, and \<open>dict(...)\<close> allocates at the end.
\<close>

record client =
  api_key :: string
  api_secret :: string
  base_url :: string

type_synonym addr = nat

type_synonym heap = "pdict list"

definition alloc :: "heap \<Rightarrow> pdict \<Rightarrow> addr \<times> heap" where
  "alloc h d = (length h, h @ [d])"

definition setitem :: "heap \<Rightarrow> addr \<Rightarrow> string \<Rightarrow> pval \<Rightarrow> heap" where
  "setitem h a k v = h[a := dict_set (h ! a) k v]"

text \<open>
  \<open>_sign(self, params)\<close>. \<open>now\<close> is the clock reading \<open>int(time.time() * 1000)\<close>. The result
  is the address that was passed in, with the updated store.
\<close>

definition sign :: "client \<Rightarrow> int \<Rightarrow> addr \<Rightarrow> heap \<Rightarrow> addr \<times> heap" where
  "sign self now params h =
     (let h1 = setitem h params ''recvWindow'' (PInt 5000);
          h2 = setitem h1 params ''timestamp'' (PInt now);
          query = urlencode (h2 ! params);
          signature = hexdigest (hmac_sha256 (api_secret self) query);
          h3 = setitem h2 params ''signature'' (PStr signature)
      in (params, h3))"

text \<open>
  Decoded JSON. A float is kept as mantissa and binary exponent. \<open>resp.json()\<close> is the
  field \<open>json\<close> of the response (\<open>resp_text\<close> is \<open>resp.text\<close>): \<open>None\<close> when the body does not decode (the method raises a
  \<open>ValueError\<close>).
\<close>

datatype jvalue =
    JNull
  | JBool bool
  | JInt int
  | JFloat int int
  | JStr string
  | JArr "jvalue list"
  | JObj "(string \<times> jvalue) list"

definition jget :: "(string \<times> jvalue) list \<Rightarrow> string \<Rightarrow> jvalue \<Rightarrow> jvalue" where
  "jget body k dflt = (case map_of body k of None \<Rightarrow> dflt | Some v \<Rightarrow> v)"

record response =
  status_code :: int
  resp_text :: string
  json :: "jvalue option"

text \<open>What \<open>self._session.request(method, url, params=params, timeout=15)\<close> does.\<close>

datatype transport =
    Responded response
  | RaisedConnectionError string
  | RaisedTimeout string

text \<open>
  The exceptions that leave \<open>_request\<close>: \<open>BinanceAPIError(status_code, code, message)\<close>, the
  built-in \<open>ConnectionError\<close> and \<open>TimeoutError\<close> with their messages, the decoding error of
  \<open>resp.json()\<close>, and the \<open>AttributeError\<close> of calling \<open>.get\<close> on a value that is not a
  dictionary.
\<close>

datatype exn =
    BinanceAPIError int jvalue jvalue
  | ConnectionError string
  | TimeoutError string
  | JSONDecodeError
  | AttributeError

record call =
  sent :: pdict
  outcome :: "exn + jvalue"
  heap_after :: heap

text \<open>
  \<open>_request(self, method, path, params, signed)\<close>. \<open>sent\<close> is the dictionary handed to the
  session, \<open>outcome\<close> what the method returns or raises.
\<close>

definition request ::
  "client \<Rightarrow> int \<Rightarrow> (string \<Rightarrow> string \<Rightarrow> pdict \<Rightarrow> transport) \<Rightarrow>
   string \<Rightarrow> string \<Rightarrow> addr option \<Rightarrow> bool \<Rightarrow> heap \<Rightarrow> call" where
  "request self now session_request method path params0 signed0 h =
     (let url = base_url self @ path;
          (params, h1) = alloc h (case params0 of
                                    None \<Rightarrow> []
                                  | Some a \<Rightarrow> if h ! a = [] then [] else h ! a);
          h2 = (if signed0 then snd (sign self now params h1) else h1);
          result =
            (case session_request method url (h2 ! params) of
               RaisedConnectionError exc \<Rightarrow>
                 Inl (ConnectionError (''Cannot reach '' @ url @ '': '' @ exc))
             | RaisedTimeout exc \<Rightarrow>
                 Inl (TimeoutError (''Request to '' @ url @ '' timed out.''))
             | Responded resp \<Rightarrow>
                 if status_code resp \<ge> 400 then
                   (case json resp of
                      None \<Rightarrow>
                        Inl (BinanceAPIError (status_code resp)
                               (JInt (status_code resp)) (JStr (resp_text resp)))
                    | Some (JObj body) \<Rightarrow>
                        Inl (BinanceAPIError (status_code resp)
                               (jget body ''code'' (JInt (status_code resp)))
                               (jget body ''msg'' (JStr (resp_text resp))))
                    | Some _ \<Rightarrow> Inl AttributeError)
                 else
                   (case json resp of
                      None \<Rightarrow> Inl JSONDecodeError
                    | Some body \<Rightarrow> Inr body))
      in \<lparr>sent = h2 ! params, outcome = result, heap_after = h2\<rparr>)"


section \<open>Orders (bot/orders.py and the validation of cli.py)\<close>








section \<open>Properties of the validators\<close>

lemma Decimal_NaN: "Decimal ''NaN'' = Some (NaN False False 0)"
  by code_simp

lemma Decimal_Infinity: "Decimal ''Infinity'' = Some (Infinity False)"
  by code_simp

lemma Decimal_nan_lower: "Decimal ''nan'' = Some (NaN False False 0)"
  by code_simp

lemma Decimal_inf_lower: "Decimal ''inf'' = Some (Infinity False)"
  by code_simp

text \<open>
  C7. With no raw value, \<open>validate_price\<close> raises the "Price is required" error exactly for
  the order types LIMIT, STOP and TAKE_PROFIT and returns \<open>None\<close> for every other order type;
  \<open>validate_stop_price\<close> raises the "Stop price is required" error exactly for STOP,
  STOP_MARKET, TAKE_PROFIT and TAKE_PROFIT_MARKET and returns \<open>None\<close> otherwise.
\<close>

theorem validate_absent_required:
  "validate_price None order_type =
     (if order_type \<in> {''LIMIT'', ''STOP'', ''TAKE_PROFIT''}
      then Inl (ValueError (PriceRequired order_type)) else Inr None)
   \<and> validate_stop_price None order_type =
     (if order_type \<in> {''STOP'', ''STOP_MARKET'', ''TAKE_PROFIT'', ''TAKE_PROFIT_MARKET''}
      then Inl (ValueError (StopPriceRequired order_type)) else Inr None)"
  by (simp add: validate_price_def validate_stop_price_def PRICE_REQUIRED_TYPES_def
      STOP_REQUIRED_TYPES_def)

theorem validate_absent_required_witness:
  "validate_price None ''LIMIT'' = Inl (ValueError (PriceRequired ''LIMIT''))
   \<and> validate_price None ''STOP_MARKET'' = Inr None
   \<and> validate_stop_price None ''STOP_MARKET'' = Inl (ValueError (StopPriceRequired ''STOP_MARKET''))
   \<and> validate_stop_price None ''LIMIT'' = Inr None"
  using validate_absent_required [of "''LIMIT''"] validate_absent_required [of "''STOP_MARKET''"]
  by simp

text \<open>
  C9. \<open>validate_quantity("Infinity")\<close> succeeds and returns the infinite decimal, and
  \<open>validate_quantity("NaN")\<close> raises \<open>InvalidOperation\<close>, which is not a \<open>ValueError\<close>; the
  price and stop-price validators do the same on a present raw value, whatever the order
  type.
\<close>

theorem numeric_validators_special_values:
  "validate_quantity ''Infinity'' = Inr (Infinity False)
   \<and> validate_quantity ''NaN'' = Inl InvalidOperation
   \<and> validate_price (Some ''Infinity'') order_type = Inr (Some (Infinity False))
   \<and> validate_price (Some ''NaN'') order_type = Inl InvalidOperation
   \<and> validate_stop_price (Some ''Infinity'') order_type = Inr (Some (Infinity False))
   \<and> validate_stop_price (Some ''NaN'') order_type = Inl InvalidOperation
   \<and> InvalidOperation \<notin> range ValueError"
  by (auto simp add: validate_quantity_def validate_price_def validate_stop_price_def
      Decimal_NaN Decimal_Infinity)

text \<open>
  C4, at the inputs where the code leaves the claim. The string \<open>nan\<close> (what \<open>str\<close> gives for
  a float NaN) is not a number, and \<open>validate_quantity\<close> does not fail with a validation
  error on it: the comparison \<open>qty <= 0\<close>, outside the \<open>try\<close>, raises \<open>InvalidOperation\<close>.
  The string \<open>inf\<close> is accepted and comes back as the infinite decimal.
\<close>

theorem validate_quantity_nan_inf:
  "validate_quantity ''nan'' = Inl InvalidOperation
   \<and> validate_quantity ''nan'' \<notin> range (\<lambda>v. Inl (ValueError v))
   \<and> validate_quantity ''inf'' = Inr (Infinity False)"
  by (auto simp add: validate_quantity_def Decimal_nan_lower Decimal_inf_lower)

section \<open>Properties of the signer\<close>

lemma keys_dict_set:
  "map fst (dict_set d k v) = (if k \<in> fst ` set d then map fst d else map fst d @ [k])"
  by (induction d) (force+)

lemma map_of_append_left: "k \<in> fst ` set d \<Longrightarrow> map_of (d @ e) k = map_of d k"
  by (simp add: map_add_dom_app_simps dom_map_of_conv_image_fst)

lemma dict_set_fresh: "k \<notin> fst ` set d \<Longrightarrow> dict_set d k v = d @ [(k, v)]"
  by (induction d) auto

lemma map_of_dict_set: "map_of (dict_set d k v) = (map_of d)(k \<mapsto> v)"
  by (induction d) (auto simp: fun_eq_iff)

lemma set_keys_dict_set: "fst ` set (dict_set d k v) = insert k (fst ` set d)"
proof -
  have "set (map fst (dict_set d k v)) = insert k (set (map fst d))"
    by (auto simp: keys_dict_set)
  then show ?thesis by simp
qed

lemma sign_result:
  assumes "a < length h"
  shows "sign self now a h =
    (a, h[a := dict_set (dict_set (dict_set (h ! a) ''recvWindow'' (PInt 5000))
                 ''timestamp'' (PInt now)) ''signature''
              (PStr (hexdigest (hmac_sha256 (api_secret self)
                 (urlencode (dict_set (dict_set (h ! a) ''recvWindow'' (PInt 5000))
                     ''timestamp'' (PInt now))))))])"
  using assms by (simp add: sign_def setitem_def Let_def)

lemma sign_appends:
  assumes "a < length h"
    and "''recvWindow'' \<notin> fst ` set (h ! a)"
    and "''timestamp'' \<notin> fst ` set (h ! a)"
    and "''signature'' \<notin> fst ` set (h ! a)"
  shows "sign self now a h =
    (a, h[a := h ! a @ [(''recvWindow'', PInt 5000), (''timestamp'', PInt now),
       (''signature'', PStr (hexdigest (hmac_sha256 (api_secret self)
          (urlencode (h ! a @ [(''recvWindow'', PInt 5000), (''timestamp'', PInt now)])))))]])"
proof -
  let ?p1 = "dict_set (h ! a) ''recvWindow'' (PInt 5000)"
  let ?p2 = "dict_set ?p1 ''timestamp'' (PInt now)"
  have p1: "?p1 = h ! a @ [(''recvWindow'', PInt 5000)]"
    using assms(2) by (rule dict_set_fresh)
  have "''timestamp'' \<notin> fst ` set ?p1"
    using assms(3) by (simp add: p1)
  then have p2: "?p2 = h ! a @ [(''recvWindow'', PInt 5000), (''timestamp'', PInt now)]"
    by (simp add: dict_set_fresh p1)
  have "''signature'' \<notin> fst ` set ?p2"
    using assms(4) by (simp add: p2)
  then have p3: "dict_set ?p2 ''signature'' v = ?p2 @ [(''signature'', v)]" for v
    by (rule dict_set_fresh)
  show ?thesis
    unfolding sign_result [OF assms(1)] p3 unfolding p2 by simp
qed

text \<open>
  C10. When the dictionary holds none of the keys \<open>recvWindow\<close>, \<open>timestamp\<close> and
  \<open>signature\<close>, \<open>_sign\<close> returns the dictionary it was given (the same address; no other
  object of the store changes), now with exactly these three keys appended in this order,
  \<open>recvWindow\<close> being 5000 and \<open>timestamp\<close> the clock reading; every key that was present
  still maps to its value.
\<close>

theorem sign_adds_three_keys:
  assumes "a < length h"
    and "''recvWindow'' \<notin> fst ` set (h ! a)"
    and "''timestamp'' \<notin> fst ` set (h ! a)"
    and "''signature'' \<notin> fst ` set (h ! a)"
  shows "fst (sign self now a h) = a
    \<and> length (snd (sign self now a h)) = length h
    \<and> (\<forall>b. b \<noteq> a \<longrightarrow> snd (sign self now a h) ! b = h ! b)
    \<and> (\<exists>s. snd (sign self now a h) ! a =
          h ! a @ [(''recvWindow'', PInt 5000), (''timestamp'', PInt now), (''signature'', PStr s)])
    \<and> (\<forall>k \<in> fst ` set (h ! a). map_of (snd (sign self now a h) ! a) k = map_of (h ! a) k)"
  using assms(1)
  by (simp add: sign_appends [OF assms] map_of_append_left del: map_of_append)

theorem sign_adds_three_keys_witness:
  "(0::nat) < length [[(''symbol'', PStr ''BTCUSDT'')]]
   \<and> ''recvWindow'' \<notin> fst ` set ([[(''symbol'', PStr ''BTCUSDT'')]] ! 0)
   \<and> ''timestamp'' \<notin> fst ` set ([[(''symbol'', PStr ''BTCUSDT'')]] ! 0)
   \<and> ''signature'' \<notin> fst ` set ([[(''symbol'', PStr ''BTCUSDT'')]] ! 0)
   \<and> fst (sign \<lparr>api_key = ''k'', api_secret = ''secret'', base_url = ''https://testnet.binancefuture.com''\<rparr>
          1700000000000 0 [[(''symbol'', PStr ''BTCUSDT'')]]) = 0
   \<and> (\<exists>s. snd (sign \<lparr>api_key = ''k'', api_secret = ''secret'', base_url = ''https://testnet.binancefuture.com''\<rparr>
          1700000000000 0 [[(''symbol'', PStr ''BTCUSDT'')]]) ! 0 =
        [(''symbol'', PStr ''BTCUSDT''), (''recvWindow'', PInt 5000),
         (''timestamp'', PInt 1700000000000), (''signature'', PStr s)])"
  using sign_adds_three_keys [of 0 "[[(''symbol'', PStr ''BTCUSDT'')]]"
      "\<lparr>api_key = ''k'', api_secret = ''secret'', base_url = ''https://testnet.binancefuture.com''\<rparr>"
      1700000000000]
  by simp

section \<open>Properties of the gateway\<close>

lemma request_sent:
  "sent (request self now session_request method path params0 signed0 h) =
     (if signed0
      then snd (sign self now (length h)
                  (h @ [case params0 of None \<Rightarrow> [] | Some a \<Rightarrow> h ! a])) ! length h
      else (case params0 of None \<Rightarrow> [] | Some a \<Rightarrow> h ! a))"
  by (simp add: request_def alloc_def Let_def split: option.splits)

lemma request_heap_after:
  "heap_after (request self now session_request method path params0 signed0 h) =
     (if signed0
      then snd (sign self now (length h)
                  (h @ [case params0 of None \<Rightarrow> [] | Some a \<Rightarrow> h ! a]))
      else h @ [case params0 of None \<Rightarrow> [] | Some a \<Rightarrow> h ! a])"
  by (simp add: request_def alloc_def Let_def split: option.splits)

lemma sign_fresh_copy:
  "take (length h) (snd (sign self now (length h) (h @ [d]))) = h"
  by (simp add: sign_result)

text \<open>
  C6. A gateway call leaves every dictionary of the caller as it was: the store it returns
  is the caller's store followed by one fresh dictionary. A signed call applies the signer
  to that fresh copy of the parameters, at the fresh address, and sends the signed copy; an
  unsigned call sends the parameters as they are (the empty dictionary when there are none).
\<close>

theorem request_leaves_params_unchanged:
  "take (length h) (heap_after (request self now session_request method path params0 signed0 h)) = h
   \<and> (signed0 \<longrightarrow>
        heap_after (request self now session_request method path params0 signed0 h) =
          snd (sign self now (length h)
                 (h @ [case params0 of None \<Rightarrow> [] | Some a \<Rightarrow> h ! a]))
        \<and> sent (request self now session_request method path params0 signed0 h) =
          heap_after (request self now session_request method path params0 signed0 h) ! length h)
   \<and> (\<not> signed0 \<longrightarrow>
        sent (request self now session_request method path params0 signed0 h) =
          (case params0 of None \<Rightarrow> [] | Some a \<Rightarrow> h ! a))"
  by (simp add: request_sent request_heap_after sign_fresh_copy)

lemma request_outcome:
  "outcome (request self now session_request method path params0 signed0 h) =
    (case session_request method (base_url self @ path)
            (sent (request self now session_request method path params0 signed0 h)) of
       RaisedConnectionError exc \<Rightarrow>
         Inl (ConnectionError (''Cannot reach '' @ (base_url self @ path) @ '': '' @ exc))
     | RaisedTimeout exc \<Rightarrow>
         Inl (TimeoutError (''Request to '' @ (base_url self @ path) @ '' timed out.''))
     | Responded resp \<Rightarrow>
         if status_code resp \<ge> 400 then
           (case json resp of
              None \<Rightarrow>
                Inl (BinanceAPIError (status_code resp)
                       (JInt (status_code resp)) (JStr (resp_text resp)))
            | Some (JObj body) \<Rightarrow>
                Inl (BinanceAPIError (status_code resp)
                       (jget body ''code'' (JInt (status_code resp)))
                       (jget body ''msg'' (JStr (resp_text resp))))
            | Some _ \<Rightarrow> Inl AttributeError)
         else
           (case json resp of
              None \<Rightarrow> Inl JSONDecodeError
            | Some body \<Rightarrow> Inr body))"
  by (simp add: request_def alloc_def Let_def split: option.splits)

theorem request_leaves_params_unchanged_witness:
  "take (length [[(''symbol'', PStr ''BTCUSDT'')]])
     (heap_after (request \<lparr>api_key = ''k'', api_secret = ''secret'', base_url = ''https://testnet.binancefuture.com''\<rparr>
        1700000000000 (\<lambda>m u p. RaisedTimeout ''read timed out'') ''GET'' ''/fapi/v2/account''
        (Some 0) True [[(''symbol'', PStr ''BTCUSDT'')]]))
     = [[(''symbol'', PStr ''BTCUSDT'')]]
   \<and> sent (request \<lparr>api_key = ''k'', api_secret = ''secret'', base_url = ''https://testnet.binancefuture.com''\<rparr>
        1700000000000 (\<lambda>m u p. RaisedTimeout ''read timed out'') ''GET'' ''/fapi/v1/ticker/price''
        (Some 0) False [[(''symbol'', PStr ''BTCUSDT'')]])
     = [(''symbol'', PStr ''BTCUSDT'')]"
  using request_leaves_params_unchanged
      [of "[[(''symbol'', PStr ''BTCUSDT'')]]"
          "\<lparr>api_key = ''k'', api_secret = ''secret'', base_url = ''https://testnet.binancefuture.com''\<rparr>"
          1700000000000 "\<lambda>m u p. RaisedTimeout ''read timed out''" "''GET''" "''/fapi/v2/account''"
          "Some 0" True, THEN conjunct1]
    request_leaves_params_unchanged
      [of "[[(''symbol'', PStr ''BTCUSDT'')]]"
          "\<lparr>api_key = ''k'', api_secret = ''secret'', base_url = ''https://testnet.binancefuture.com''\<rparr>"
          1700000000000 "\<lambda>m u p. RaisedTimeout ''read timed out''" "''GET''" "''/fapi/v1/ticker/price''"
          "Some 0" False, THEN conjunct2, THEN conjunct2]
  by simp

text \<open>
  C8. When the transport answers with a status below 400, the gateway returns the decoded
  JSON body; when the body does not decode, the call fails with the decoding error of
  \<open>resp.json()\<close>, which is neither a returned value, nor a \<open>BinanceAPIError\<close>, nor one of
  the transport errors \<open>ConnectionError\<close> and \<open>TimeoutError\<close>.
\<close>

theorem request_success_body:
  assumes "session_request method (base_url self @ path)
             (sent (request self now session_request method path params0 signed0 h)) = Responded resp"
    and "status_code resp < 400"
  shows "outcome (request self now session_request method path params0 signed0 h) =
           (case json resp of None \<Rightarrow> Inl JSONDecodeError | Some body \<Rightarrow> Inr body)
    \<and> Inl JSONDecodeError \<notin> range (Inr :: jvalue \<Rightarrow> exn + jvalue)
    \<and> JSONDecodeError \<notin> range (\<lambda>(status, code, msg). BinanceAPIError status code msg)
    \<and> JSONDecodeError \<notin> range ConnectionError \<union> range TimeoutError"
  using assms by (auto simp add: request_outcome)

theorem request_success_body_witness:
  "outcome (request \<lparr>api_key = ''k'', api_secret = ''secret'', base_url = ''https://testnet.binancefuture.com''\<rparr>
      1700000000000
      (\<lambda>m u p. Responded \<lparr>status_code = 200, resp_text = ''<html>ok</html>'', json = None\<rparr>)
      ''GET'' ''/fapi/v1/time'' None False []) = Inl JSONDecodeError
   \<and> outcome (request \<lparr>api_key = ''k'', api_secret = ''secret'', base_url = ''https://testnet.binancefuture.com''\<rparr>
      1700000000000
      (\<lambda>m u p. Responded \<lparr>status_code = 200, resp_text = ''{}'',
                              json = Some (JObj [])\<rparr>)
      ''GET'' ''/fapi/v1/time'' None False []) = Inr (JObj [])"
  using request_success_body
      [of "\<lambda>m u p. Responded \<lparr>status_code = 200, resp_text = ''<html>ok</html>'', json = None\<rparr>"
          "''GET''"
          "\<lparr>api_key = ''k'', api_secret = ''secret'', base_url = ''https://testnet.binancefuture.com''\<rparr>"
          "''/fapi/v1/time''" 1700000000000 None False "[]"
          "\<lparr>status_code = 200, resp_text = ''<html>ok</html>'', json = None\<rparr>"]
    request_success_body
      [of "\<lambda>m u p. Responded \<lparr>status_code = 200, resp_text = ''{}'',
                              json = Some (JObj [])\<rparr>"
          "''GET''"
          "\<lparr>api_key = ''k'', api_secret = ''secret'', base_url = ''https://testnet.binancefuture.com''\<rparr>"
          "''/fapi/v1/time''" 1700000000000 None False "[]"
          "\<lparr>status_code = 200, resp_text = ''{}'',
                              json = Some (JObj [])\<rparr>"]
  by simp

text \<open>
  For a status of 400 or more, the error carries the body's \<open>code\<close> and \<open>msg\<close> (the
  status and the raw text where a field is absent) when the body decodes to an object, and
  the status and the raw text when the body does not decode.
\<close>

lemma request_error_object_or_undecodable:
  assumes "session_request method (base_url self @ path)
             (sent (request self now session_request method path params0 signed0 h)) = Responded resp"
    and "status_code resp \<ge> 400"
  shows "json resp = None \<Longrightarrow>
           outcome (request self now session_request method path params0 signed0 h) =
             Inl (BinanceAPIError (status_code resp) (JInt (status_code resp)) (JStr (resp_text resp)))"
    and "json resp = Some (JObj body) \<Longrightarrow>
           outcome (request self now session_request method path params0 signed0 h) =
             Inl (BinanceAPIError (status_code resp)
                    (case map_of body ''code'' of None \<Rightarrow> JInt (status_code resp) | Some c \<Rightarrow> c)
                    (case map_of body ''msg'' of None \<Rightarrow> JStr (resp_text resp) | Some m \<Rightarrow> m))"
  using assms by (simp_all add: request_outcome jget_def)

lemma request_error_examples:
  "outcome (request self now
      (\<lambda>m u p. Responded \<lparr>status_code = 400, resp_text = raw,
                              json = Some (JObj [(''code'', JInt (- 1121)), (''msg'', JStr ''Invalid symbol.'')])\<rparr>)
      method path params0 signed0 h) = Inl (BinanceAPIError 400 (JInt (- 1121)) (JStr ''Invalid symbol.''))"
  "outcome (request self now
      (\<lambda>m u p. Responded \<lparr>status_code = 400, resp_text = ''plain text error'', json = None\<rparr>)
      method path params0 signed0 h) = Inl (BinanceAPIError 400 (JInt 400) (JStr ''plain text error''))"
  by (simp_all add: request_outcome jget_def)

text \<open>
  C3, at an input where the code leaves the claim. A response with status 400 whose body
  is the JSON array \<open>[]\<close> decodes, but not to a dictionary: \<open>body.get\<close> raises
  \<open>AttributeError\<close>, which the handler for \<open>ValueError\<close> does not catch, and no
  \<open>BinanceAPIError\<close> is raised.
\<close>

theorem request_error_non_object_body:
  "outcome (request \<lparr>api_key = ''k'', api_secret = ''secret'', base_url = ''https://testnet.binancefuture.com''\<rparr>
      1700000000000
      (\<lambda>m u p. Responded \<lparr>status_code = 400, resp_text = ''[]'', json = Some (JArr [])\<rparr>)
      ''POST'' ''/fapi/v1/order'' None True []) = Inl AttributeError
   \<and> AttributeError \<notin> range (\<lambda>(status, code, msg). BinanceAPIError status code msg)"
  by (auto simp add: request_outcome)

section \<open>Properties of order placement\<close>


















end
